theory Spec2Isabelle
  imports Main "HOL-Library.Word"
begin

unbundle bit_operations_syntax

section \<open>The parser's common header (cs_parser_common.h), namespace AGS\<close>

subsection \<open>Binary-layout constants\<close>

text \<open>
  The \<open>constexpr size_t\<close> constants of lines 25 to 34. They are only ever read, never
  computed with, so a \<open>size_t\<close> is modelled as a natural number.
\<close>

definition SIZE_OF_CHAR :: nat where
  "SIZE_OF_CHAR = 1"

definition SIZE_OF_DYNPOINTER :: nat where
  "SIZE_OF_DYNPOINTER = 4"

definition SIZE_OF_FLOAT :: nat where
  "SIZE_OF_FLOAT = 4"

definition SIZE_OF_INT :: nat where
  "SIZE_OF_INT = 4"

definition SIZE_OF_LONG :: nat where
  "SIZE_OF_LONG = 4"

definition SIZE_OF_SHORT :: nat where
  "SIZE_OF_SHORT = 2"

definition SIZE_OF_STACK_CELL :: nat where
  "SIZE_OF_STACK_CELL = 4"

definition STRUCT_ALIGNTO :: nat where
  "STRUCT_ALIGNTO = 4"

definition MAX_FUNCTION_PARAMETERS :: nat where
  "MAX_FUNCTION_PARAMETERS = 15"

subsection \<open>Flag sets\<close>

text \<open>
  \<open>typedef long FlagSet\<close>. The width of a C++ \<open>long\<close> depends on the platform (32 bits
  under ILP32 and LLP64, 64 bits under LP64), so the width is the length parameter
  \<open>'l\<close> of the word type; \<open>&\<close>, \<open>|\<close> and \<open>~\<close> on a two's complement \<open>long\<close> are the
  bitwise operations on its bit pattern.

  \<^verbatim>\<open>
  inline static bool FlagIsSet(AGS::FlagSet fl_set, long flag) { return 0 != (fl_set & flag); }
  inline static void SetFlag(AGS::FlagSet &fl_set, long flag, bool val)
      { if (val) fl_set |= flag; else fl_set &= ~flag; }
  \<close>
  \<open>SetFlag\<close> writes through its reference parameter; the model returns the new value
  of \<open>fl_set\<close>.
\<close>

type_synonym 'l FlagSet = "'l word"

definition FlagIsSet :: "'l::len FlagSet \<Rightarrow> 'l word \<Rightarrow> bool" where
  "FlagIsSet fl_set flag = (0 \<noteq> (fl_set AND flag))"

definition SetFlag :: "'l::len FlagSet \<Rightarrow> 'l word \<Rightarrow> bool \<Rightarrow> 'l FlagSet" where
  "SetFlag fl_set flag val = (if val then fl_set OR flag else fl_set AND NOT flag)"

subsection \<open>SymbolType\<close>

text \<open>
  \<open>enum SymbolType : SymbolTypeType\<close> (lines 39 to 61). The enumerators are the
  constructors; \<open>SymbolType_enumerators\<close> is the enumerator list of the declaration,
  in the order of the source.
\<close>

datatype SymbolType =
    kSYM_NoType
  | kSYM_Attribute
  | kSYM_Delimiter
  | kSYM_Constant
  | kSYM_Function
  | kSYM_GlobalVar
  | kSYM_LiteralFloat
  | kSYM_LiteralInt
  | kSYM_LiteralString
  | kSYM_LocalVar
  | kSYM_Operator
  | kSYM_StructComponent
  | kSYM_Assign
  | kSYM_AssignMod
  | kSYM_AssignSOp
  | kSYM_Keyword
  | kSYM_Import
  | kSYM_UndefinedStruct
  | kSYM_Vartype

definition SymbolType_enumerators :: "SymbolType list" where
  "SymbolType_enumerators =
    [kSYM_NoType,
     kSYM_Attribute,
     kSYM_Delimiter,
     kSYM_Constant,
     kSYM_Function,
     kSYM_GlobalVar,
     kSYM_LiteralFloat,
     kSYM_LiteralInt,
     kSYM_LiteralString,
     kSYM_LocalVar,
     kSYM_Operator,
     kSYM_StructComponent,
     kSYM_Assign,
     kSYM_AssignMod,
     kSYM_AssignSOp,
     kSYM_Keyword,
     kSYM_Import,
     kSYM_UndefinedStruct,
     kSYM_Vartype]"

text \<open>
  The value of an enumerator. Only the first enumerator has an initializer
  (\<open>kSYM_NoType = 0\<close>); by the rule of the language every later one has the value of
  its predecessor plus one. \<open>enumerator_value es t v\<close> walks the declaration \<open>es\<close>,
  whose first enumerator has the value \<open>v\<close>. All the values fit the underlying type
  \<open>short\<close>, and a comparison of two enumerators compares these values.
\<close>

fun enumerator_value :: "'a list \<Rightarrow> 'a \<Rightarrow> int \<Rightarrow> int" where
  "enumerator_value [] t v = v"
| "enumerator_value (e # es) t v = (if e = t then v else enumerator_value es t (v + 1))"

definition SymbolType_val :: "SymbolType \<Rightarrow> int" where
  "SymbolType_val t = enumerator_value SymbolType_enumerators t 0"

text \<open>
  \<open>constexpr SymbolType kSYM_LastInExpression = kSYM_StructComponent;\<close> (line 64), with
  the comments "Types starting (numerically) with this aren't part of expressions" and
  "Types beyond here can't be in expressions".
\<close>

definition kSYM_LastInExpression :: SymbolType where
  "kSYM_LastInExpression = kSYM_StructComponent"

text \<open>
  The ordering test those comments describe: a tag can be part of an expression when
  its value is below that of the boundary constant.
\<close>

definition InExpression :: "SymbolType \<Rightarrow> bool" where
  "InExpression t = (SymbolType_val t < SymbolType_val kSYM_LastInExpression)"

text \<open>
  The specification's side, written from its words. Section 3 lists the tags in this
  order: no-type, attribute, delimiter, constant, function, global variable,
  float/int/string literal, local variable, operator, struct component, plain
  assignment, compound assignment, single-operand assignment, keyword, import,
  undefined struct, vartype; and it says that the types ordered before "struct
  component" are the only ones legal inside an expression.
\<close>

definition spec_SymbolType_listing :: "SymbolType list" where
  "spec_SymbolType_listing =
    [kSYM_NoType, kSYM_Attribute, kSYM_Delimiter, kSYM_Constant, kSYM_Function,
     kSYM_GlobalVar, kSYM_LiteralFloat, kSYM_LiteralInt, kSYM_LiteralString,
     kSYM_LocalVar, kSYM_Operator, kSYM_StructComponent, kSYM_Assign, kSYM_AssignMod,
     kSYM_AssignSOp, kSYM_Keyword, kSYM_Import, kSYM_UndefinedStruct, kSYM_Vartype]"

definition spec_expression_legal :: "SymbolType \<Rightarrow> bool" where
  "spec_expression_legal t =
    (t \<in> set (takeWhile (\<lambda>x. x \<noteq> kSYM_StructComponent) spec_SymbolType_listing))"

subsection \<open>TypeQualifier\<close>

text \<open>
  \<open>enum TypeQualifier\<close> (lines 66 to 82). Every enumerator has an initializer, an
  \<open>int\<close> expression: \<open>1 << k\<close> is \<open>push_bit k 1\<close>, and \<open>kTQ_Import\<close> is defined from
  two earlier enumerators.
\<close>

datatype TypeQualifier =
    kTQ_None
  | kTQ_Attribute
  | kTQ_Autoptr
  | kTQ_Builtin
  | kTQ_Const
  | kTQ_ImportStd
  | kTQ_ImportTry
  | kTQ_Managed
  | kTQ_Protected
  | kTQ_Readonly
  | kTQ_Static
  | kTQ_Stringstruct
  | kTQ_Writeprotected
  | kTQ_Import

function TypeQualifier_val :: "TypeQualifier \<Rightarrow> int" where
  "TypeQualifier_val kTQ_None = 0"
| "TypeQualifier_val kTQ_Attribute = push_bit 0 1"
| "TypeQualifier_val kTQ_Autoptr = push_bit 1 1"
| "TypeQualifier_val kTQ_Builtin = push_bit 2 1"
| "TypeQualifier_val kTQ_Const = push_bit 3 1"
| "TypeQualifier_val kTQ_ImportStd = push_bit 4 1"
| "TypeQualifier_val kTQ_ImportTry = push_bit 5 1"
| "TypeQualifier_val kTQ_Managed = push_bit 6 1"
| "TypeQualifier_val kTQ_Protected = push_bit 7 1"
| "TypeQualifier_val kTQ_Readonly = push_bit 8 1"
| "TypeQualifier_val kTQ_Static = push_bit 9 1"
| "TypeQualifier_val kTQ_Stringstruct = push_bit 10 1"
| "TypeQualifier_val kTQ_Writeprotected = push_bit 11 1"
| "TypeQualifier_val kTQ_Import = TypeQualifier_val kTQ_ImportStd OR TypeQualifier_val kTQ_ImportTry"
  by pat_completeness auto
termination
  by (relation "measure (\<lambda>t. if t = kTQ_Import then 1 else 0)") auto

text \<open>
  \<open>typedef FlagSet TypeQualifierSet\<close>: a qualifier reaches \<open>FlagIsSet\<close> and \<open>SetFlag\<close>
  through the implicit conversion of the enumerator to \<open>long\<close>.
\<close>

definition TQ :: "TypeQualifier \<Rightarrow> 'l::len FlagSet" where
  "TQ t = word_of_int (TypeQualifier_val t)"

text \<open>The enumerators whose initializer is a single shifted bit \<open>1 << k\<close>.\<close>

definition single_bit_qualifiers :: "TypeQualifier list" where
  "single_bit_qualifiers =
    [kTQ_Attribute, kTQ_Autoptr, kTQ_Builtin, kTQ_Const, kTQ_ImportStd, kTQ_ImportTry,
     kTQ_Managed, kTQ_Protected, kTQ_Readonly, kTQ_Static, kTQ_Stringstruct,
     kTQ_Writeprotected]"

subsection \<open>ErrorType\<close>

text \<open>\<open>enum ErrorType\<close> (lines 105 to 110), each enumerator with its initializer.\<close>

datatype ErrorType = kERR_None | kERR_UserError | kERR_InternalError

fun ErrorType_val :: "ErrorType \<Rightarrow> int" where
  "ErrorType_val kERR_None = 0"
| "ErrorType_val kERR_UserError = -1"
| "ErrorType_val kERR_InternalError = -99"

subsection \<open>MessageHandler\<close>

text \<open>
  \<open>class MessageHandler\<close> (lines 112 to 146): the nested \<open>enum Severity\<close>, the
  \<open>struct Entry\<close>, and the object's state, which is its one non-static data member
  \<open>_entries\<close>, a vector of entries (here the field \<open>entries\<close>).
\<close>

datatype Severity = kSV_None | kSV_Info | kSV_Warning | kSV_Error

record Entry =
  Severity :: Severity
  Section :: string
  Lineno :: nat
  Message :: string

record MessageHandler =
  entries :: "Entry list"

text \<open>
  Modelled from the spec: the constructor
  \<open>Entry(enum Severity sev, std::string const &section, size_t lineno, std::string const msg)\<close>
  is declared in the header and defined in a file that is not among the sources.
  Section 3 of the specification gives an entry as \<open>{severity, section name, line
  number, message text}\<close>, so the constructor stores its four arguments in the four
  fields.
\<close>

definition Entry_ctor :: "Severity \<Rightarrow> string \<Rightarrow> nat \<Rightarrow> string \<Rightarrow> Entry" where
  "Entry_ctor sev section lineno msg =
    \<lparr>Severity = sev, Section = section, Lineno = lineno, Message = msg\<rparr>"

text \<open>
  \<^verbatim>\<open>
  inline void AddMessage(Severity sev, std::string const &sec, size_t line, std::string const &msg)
      {_entries.emplace_back(sev, sec, line, msg); }
  inline MessagesType GetMessages() const { return _entries; }
  inline void Clear() { _entries.clear(); }
  \<close>
  \<open>emplace_back\<close> constructs the new element at the end of the vector from the four
  arguments. The two member functions that are not \<open>const\<close> return the new state.
\<close>

definition AddMessage :: "MessageHandler \<Rightarrow> Severity \<Rightarrow> string \<Rightarrow> nat \<Rightarrow> string \<Rightarrow> MessageHandler" where
  "AddMessage h sev sec line msg = h\<lparr>entries := entries h @ [Entry_ctor sev sec line msg]\<rparr>"

definition GetMessages :: "MessageHandler \<Rightarrow> Entry list" where
  "GetMessages h = entries h"

definition Clear :: "MessageHandler \<Rightarrow> MessageHandler" where
  "Clear h = h\<lparr>entries := []\<rparr>"

text \<open>
  Modelled from the spec: \<open>Entry const &GetError() const\<close> is declared in the header
  and defined in a file that is not among the sources, as is the static member
  \<open>_noError\<close> it can return. Section 4.1 of the specification: "\<open>GetError()\<close> returns
  the first entry with error severity, or a sentinel "no error" entry if none exists".
  The specification does not give the sentinel's fields, so the sentinel is the
  parameter \<open>noError\<close>.
\<close>

fun first_error :: "Entry list \<Rightarrow> Entry option" where
  "first_error [] = None"
| "first_error (e # es) = (if Severity e = kSV_Error then Some e else first_error es)"

definition GetError :: "Entry \<Rightarrow> MessageHandler \<Rightarrow> Entry" where
  "GetError noError h = (case first_error (entries h) of Some e \<Rightarrow> e | None \<Rightarrow> noError)"

section \<open>Properties\<close>

subsection \<open>Enumerator values\<close>

lemma SymbolType_val_simps:
  "SymbolType_val kSYM_NoType = 0"
  "SymbolType_val kSYM_Attribute = 1"
  "SymbolType_val kSYM_Delimiter = 2"
  "SymbolType_val kSYM_Constant = 3"
  "SymbolType_val kSYM_Function = 4"
  "SymbolType_val kSYM_GlobalVar = 5"
  "SymbolType_val kSYM_LiteralFloat = 6"
  "SymbolType_val kSYM_LiteralInt = 7"
  "SymbolType_val kSYM_LiteralString = 8"
  "SymbolType_val kSYM_LocalVar = 9"
  "SymbolType_val kSYM_Operator = 10"
  "SymbolType_val kSYM_StructComponent = 11"
  "SymbolType_val kSYM_Assign = 12"
  "SymbolType_val kSYM_AssignMod = 13"
  "SymbolType_val kSYM_AssignSOp = 14"
  "SymbolType_val kSYM_Keyword = 15"
  "SymbolType_val kSYM_Import = 16"
  "SymbolType_val kSYM_UndefinedStruct = 17"
  "SymbolType_val kSYM_Vartype = 18"
  by (simp_all add: SymbolType_val_def SymbolType_enumerators_def)

lemma spec_expression_legal_cases:
  "spec_expression_legal t \<longleftrightarrow>
     t \<in> {kSYM_NoType, kSYM_Attribute, kSYM_Delimiter, kSYM_Constant, kSYM_Function,
          kSYM_GlobalVar, kSYM_LiteralFloat, kSYM_LiteralInt, kSYM_LiteralString,
          kSYM_LocalVar, kSYM_Operator}"
  by (simp add: spec_expression_legal_def spec_SymbolType_listing_def)

text \<open>
  Claim C1. The enum declares the tags in the order in which the specification lists
  them, so that the listed tags have the values 0 to 18 in that order; the boundary
  constant \<open>kSYM_LastInExpression\<close> is \<open>kSYM_StructComponent\<close>; and for every tag \<open>t\<close>,
  \<open>t\<close> is ordered before "struct component" in the specification's listing (legal
  inside an expression) exactly when \<open>t < kSYM_LastInExpression\<close>, which is the
  ordering test of the header's comments.
\<close>

theorem SymbolType_expression_order:
  "SymbolType_enumerators = spec_SymbolType_listing
   \<and> map SymbolType_val spec_SymbolType_listing = [0..18]
   \<and> kSYM_LastInExpression = kSYM_StructComponent
   \<and> (\<forall>t. spec_expression_legal t \<longleftrightarrow> SymbolType_val t < SymbolType_val kSYM_LastInExpression)
   \<and> (\<forall>t. InExpression t \<longleftrightarrow> spec_expression_legal t)"
proof -
  have order: "SymbolType_enumerators = spec_SymbolType_listing"
    by (simp add: SymbolType_enumerators_def spec_SymbolType_listing_def)
  have "[0..18] = [0, 1, 2, 3, 4, 5, 6, 7, 8, 9, 10, 11, 12, 13, 14, 15, 16, 17, 18::int]"
    by (simp add: upto_rec1)
  then have vals: "map SymbolType_val spec_SymbolType_listing = [0..18]"
    by (simp add: spec_SymbolType_listing_def SymbolType_val_simps)
  have legal: "spec_expression_legal t \<longleftrightarrow> SymbolType_val t < SymbolType_val kSYM_LastInExpression" for t
    by (cases t) (simp_all add: spec_expression_legal_cases kSYM_LastInExpression_def SymbolType_val_simps)
  from order vals legal show ?thesis
    by (simp add: InExpression_def kSYM_LastInExpression_def)
qed

text \<open>
  Claim C2. The binary-layout constants: the pointer-sized cell is 4 bytes, the int,
  float and long cells are 4 bytes each, short is 2 bytes, char is 1 byte, struct
  alignment is 4 bytes, the stack cell is 4 bytes, and a function has at most 15
  parameters.
\<close>

theorem layout_constants:
  "SIZE_OF_DYNPOINTER = 4 \<and> SIZE_OF_INT = 4 \<and> SIZE_OF_FLOAT = 4 \<and> SIZE_OF_LONG = 4
   \<and> SIZE_OF_SHORT = 2 \<and> SIZE_OF_CHAR = 1 \<and> STRUCT_ALIGNTO = 4 \<and> SIZE_OF_STACK_CELL = 4
   \<and> MAX_FUNCTION_PARAMETERS = 15"
  by (simp add: SIZE_OF_DYNPOINTER_def SIZE_OF_INT_def SIZE_OF_FLOAT_def SIZE_OF_LONG_def
      SIZE_OF_SHORT_def SIZE_OF_CHAR_def STRUCT_ALIGNTO_def SIZE_OF_STACK_CELL_def
      MAX_FUNCTION_PARAMETERS_def)

text \<open>
  Claim C3, as stated: the tags of a struct component, of a keyword and of a delimiter
  all lie at or past the boundary \<open>kSYM_LastInExpression\<close>. This fails for the
  delimiter: \<open>kSYM_Delimiter\<close> is the third enumerator, with the value 2, and the
  boundary has the value 11.
\<close>

theorem Delimiter_before_boundary_counterexample:
  "\<not> (SymbolType_val kSYM_StructComponent \<ge> SymbolType_val kSYM_LastInExpression
      \<and> SymbolType_val kSYM_Keyword \<ge> SymbolType_val kSYM_LastInExpression
      \<and> SymbolType_val kSYM_Delimiter \<ge> SymbolType_val kSYM_LastInExpression)"
  by (simp add: kSYM_LastInExpression_def SymbolType_val_simps)

text \<open>
  Claim C3, amended. The tags of a struct component and of a keyword lie at or past
  the boundary, so the ordering test rejects each of them; the tag of a delimiter lies
  before the boundary, so the ordering test does not reject a delimiter.
\<close>

theorem StructComponent_Keyword_past_boundary:
  "SymbolType_val kSYM_StructComponent \<ge> SymbolType_val kSYM_LastInExpression
   \<and> SymbolType_val kSYM_Keyword \<ge> SymbolType_val kSYM_LastInExpression
   \<and> SymbolType_val kSYM_Delimiter < SymbolType_val kSYM_LastInExpression
   \<and> \<not> InExpression kSYM_StructComponent \<and> \<not> InExpression kSYM_Keyword
   \<and> InExpression kSYM_Delimiter"
  by (simp add: InExpression_def kSYM_LastInExpression_def SymbolType_val_simps)

text \<open>
  Claim C10. \<open>kSYM_NoType\<close>, the classification of a symbol that has not been declared
  yet, has the value 0, which is strictly below the boundary, so such a symbol passes
  the ordering test.
\<close>

theorem NoType_in_expression:
  "SymbolType_val kSYM_NoType = 0
   \<and> SymbolType_val kSYM_NoType < SymbolType_val kSYM_LastInExpression
   \<and> InExpression kSYM_NoType"
  by (simp add: InExpression_def kSYM_LastInExpression_def SymbolType_val_simps)

text \<open>
  Claim C8. The codes of \<open>ErrorType\<close> are 0 for no error, -1 for a user error and -99
  for an internal error; they are pairwise different, so the code tells the three
  outcomes apart.
\<close>

theorem ErrorType_distinct:
  "ErrorType_val kERR_None = 0 \<and> ErrorType_val kERR_UserError = -1
   \<and> ErrorType_val kERR_InternalError = -99
   \<and> ErrorType_val kERR_None \<noteq> ErrorType_val kERR_UserError
   \<and> ErrorType_val kERR_None \<noteq> ErrorType_val kERR_InternalError
   \<and> ErrorType_val kERR_UserError \<noteq> ErrorType_val kERR_InternalError
   \<and> inj ErrorType_val"
proof -
  have "inj ErrorType_val"
  proof (rule injI)
    fix a b assume "ErrorType_val a = ErrorType_val b"
    then show "a = b" by (cases a; cases b) simp_all
  qed
  then show ?thesis by simp
qed

subsection \<open>Type qualifiers\<close>

lemma TypeQualifier_val_single_bits:
  "map TypeQualifier_val single_bit_qualifiers = map (\<lambda>k. 2 ^ k) [0..<12]"
proof -
  have "[0..<12] = [0, 1, 2, 3, 4, 5, 6, 7, 8, 9, 10, 11::nat]"
    by (simp add: upt_rec)
  then show ?thesis
    by (simp add: single_bit_qualifiers_def)
qed

lemma FlagIsSet_OR:
  "FlagIsSet q (a OR b) \<longleftrightarrow> FlagIsSet q a \<or> FlagIsSet q b"
proof -
  have "q AND (a OR b) = (q AND a) OR (q AND b)"
    by (rule bit.conj_disj_distrib)
  then show ?thesis
    unfolding FlagIsSet_def by (auto simp: or_eq_0_iff)
qed

lemma TQ_Import: "TQ kTQ_Import = TQ kTQ_ImportStd OR TQ kTQ_ImportTry"
  unfolding TQ_def TypeQualifier_val.simps(14) by (rule of_int_or_eq)

lemma FlagIsSet_push_bit: "FlagIsSet q (push_bit n 1) \<longleftrightarrow> bit q n"
proof -
  have "bit q n \<longleftrightarrow> q AND push_bit n 1 \<noteq> 0"
    by (rule bit_iff_and_push_bit_not_eq_0)
  then show ?thesis
    unfolding FlagIsSet_def by metis
qed

lemma TQ_ImportStd: "TQ kTQ_ImportStd = push_bit 4 1"
  unfolding TQ_def TypeQualifier_val.simps by (simp only: of_int_push_bit of_int_1)

lemma TQ_ImportTry: "TQ kTQ_ImportTry = push_bit 5 1"
  unfolding TQ_def TypeQualifier_val.simps by (simp only: of_int_push_bit of_int_1)

text \<open>
  Claim C4. \<open>kTQ_Import\<close> is the bitwise OR of \<open>kTQ_ImportStd\<close> and \<open>kTQ_ImportTry\<close>;
  the twelve single-bit qualifiers are the bits 0 to 11 and are pairwise disjoint; and
  for every qualifier set \<open>q\<close>, of any width of \<open>long\<close>, \<open>FlagIsSet(q, kTQ_Import)\<close>
  holds exactly when \<open>q\<close> contains \<open>kTQ_ImportStd\<close> or contains \<open>kTQ_ImportTry\<close>:
  exactly when bit 4 or bit 5 of \<open>q\<close> is set, that is, when \<open>q & 16\<close> or \<open>q & 32\<close> is
  not zero. The test for each sub-flavor alone is the test of its own bit.
\<close>

theorem TypeQualifier_import_union:
  "TypeQualifier_val kTQ_Import = TypeQualifier_val kTQ_ImportStd OR TypeQualifier_val kTQ_ImportTry
   \<and> map TypeQualifier_val single_bit_qualifiers = map (\<lambda>k. 2 ^ k) [0..<12]
   \<and> (\<forall>a \<in> set single_bit_qualifiers. \<forall>b \<in> set single_bit_qualifiers.
         a \<noteq> b \<longrightarrow> TypeQualifier_val a AND TypeQualifier_val b = 0)
   \<and> (FlagIsSet q (TQ kTQ_Import) \<longleftrightarrow> FlagIsSet q (TQ kTQ_ImportStd) \<or> FlagIsSet q (TQ kTQ_ImportTry))
   \<and> (FlagIsSet q (TQ kTQ_Import) \<longleftrightarrow> bit q 4 \<or> bit q 5)
   \<and> (FlagIsSet q (TQ kTQ_Import) \<longleftrightarrow> q AND 16 \<noteq> 0 \<or> q AND 32 \<noteq> 0)
   \<and> (FlagIsSet q (TQ kTQ_ImportStd) \<longleftrightarrow> bit q 4)
   \<and> (FlagIsSet q (TQ kTQ_ImportTry) \<longleftrightarrow> bit q 5)"
proof -
  have disj: "\<forall>a \<in> set single_bit_qualifiers. \<forall>b \<in> set single_bit_qualifiers.
         a \<noteq> b \<longrightarrow> TypeQualifier_val a AND TypeQualifier_val b = 0"
    by (simp add: single_bit_qualifiers_def)
  have mask: "FlagIsSet q (TQ kTQ_Import) \<longleftrightarrow> FlagIsSet q (TQ kTQ_ImportStd) \<or> FlagIsSet q (TQ kTQ_ImportTry)"
    by (simp only: TQ_Import FlagIsSet_OR)
  have union: "TypeQualifier_val kTQ_Import = TypeQualifier_val kTQ_ImportStd OR TypeQualifier_val kTQ_ImportTry"
    by (rule TypeQualifier_val.simps(14))
  have std: "FlagIsSet q (TQ kTQ_ImportStd) \<longleftrightarrow> bit q 4"
    by (simp only: TQ_ImportStd FlagIsSet_push_bit)
  have try_bit: "FlagIsSet q (TQ kTQ_ImportTry) \<longleftrightarrow> bit q 5"
    by (simp only: TQ_ImportTry FlagIsSet_push_bit)
  have bits: "FlagIsSet q (TQ kTQ_Import) \<longleftrightarrow> bit q 4 \<or> bit q 5"
    by (simp only: mask std try_bit)
  have b4: "bit q 4 \<longleftrightarrow> q AND 16 \<noteq> 0"
    using bit_iff_and_push_bit_not_eq_0 [of q 4] by simp
  have b5: "bit q 5 \<longleftrightarrow> q AND 32 \<noteq> 0"
    using bit_iff_and_push_bit_not_eq_0 [of q 5] by simp
  have masks: "FlagIsSet q (TQ kTQ_Import) \<longleftrightarrow> q AND 16 \<noteq> 0 \<or> q AND 32 \<noteq> 0"
    by (simp only: bits b4 b5)
  from union TypeQualifier_val_single_bits disj mask bits masks std try_bit show ?thesis
    by (simp only: simp_thms)
qed

theorem TypeQualifier_import_union_witness:
  "kTQ_Const \<in> set single_bit_qualifiers \<and> kTQ_Managed \<in> set single_bit_qualifiers
   \<and> kTQ_Const \<noteq> kTQ_Managed
   \<and> TypeQualifier_val kTQ_Const AND TypeQualifier_val kTQ_Managed = 0
   \<and> FlagIsSet (32 :: 32 word) (TQ kTQ_Import)
   \<and> FlagIsSet (32 :: 32 word) (TQ kTQ_ImportTry)
   \<and> \<not> FlagIsSet (32 :: 32 word) (TQ kTQ_ImportStd)
   \<and> FlagIsSet (16 :: 32 word) (TQ kTQ_Import)
   \<and> \<not> FlagIsSet (0 :: 32 word) (TQ kTQ_Import)
   \<and> \<not> FlagIsSet (4047 :: 32 word) (TQ kTQ_Import)
   \<and> \<not> FlagIsSet (4047 :: 32 word) (TQ kTQ_ImportStd)
   \<and> \<not> FlagIsSet (4047 :: 32 word) (TQ kTQ_ImportTry)"
proof -
  have m: "kTQ_Const \<in> set single_bit_qualifiers" "kTQ_Managed \<in> set single_bit_qualifiers"
    by (simp_all add: single_bit_qualifiers_def)
  have b32: "(32 :: 32 word) AND 16 = 0" "(32 :: 32 word) AND 32 \<noteq> 0"
    and b16: "(16 :: 32 word) AND 16 \<noteq> 0"
    and b0: "(0 :: 32 word) AND 16 = 0" "(0 :: 32 word) AND 32 = 0"
    and b4047: "(4047 :: 32 word) AND 16 = 0" "(4047 :: 32 word) AND 32 = 0"
    by simp_all
  note at32 = TypeQualifier_import_union [of "32 :: 32 word"]
  note at16 = TypeQualifier_import_union [of "16 :: 32 word"]
  note at0 = TypeQualifier_import_union [of "0 :: 32 word"]
  note at4047 = TypeQualifier_import_union [of "4047 :: 32 word"]
  have p32: "FlagIsSet (32 :: 32 word) (TQ kTQ_Import)" using at32 b32 by blast
  have p16: "FlagIsSet (16 :: 32 word) (TQ kTQ_Import)" using at16 b16 by blast
  have n0: "\<not> FlagIsSet (0 :: 32 word) (TQ kTQ_Import)" using at0 b0 by blast
  have n4047: "\<not> FlagIsSet (4047 :: 32 word) (TQ kTQ_Import)" using at4047 b4047 by blast
  from n4047 at4047
  have n4047': "\<not> FlagIsSet (4047 :: 32 word) (TQ kTQ_ImportStd)"
    "\<not> FlagIsSet (4047 :: 32 word) (TQ kTQ_ImportTry)" by blast+
  have std32: "\<not> FlagIsSet (32 :: 32 word) (TQ kTQ_ImportStd)"
    by (simp add: FlagIsSet_def TQ_def)
  from p32 std32 at32 have try32: "FlagIsSet (32 :: 32 word) (TQ kTQ_ImportTry)" by blast
  from at32 m have d: "kTQ_Const \<noteq> kTQ_Managed \<and> TypeQualifier_val kTQ_Const AND TypeQualifier_val kTQ_Managed = 0"
    by blast
  from m d p32 try32 std32 p16 n0 n4047 n4047' show ?thesis by blast
qed

subsection \<open>Setting and clearing flags\<close>

lemma SetFlag_twice: "SetFlag (SetFlag s f v) f v = SetFlag s f v"
  by (cases v) (simp_all add: SetFlag_def bit_eq_iff bit_simps)

lemma SetFlag_True_contained: "s AND f = f \<Longrightarrow> SetFlag s f True = s"
proof -
  assume "s AND f = f"
  then have "s OR f = s OR (s AND f)" by simp
  also have "\<dots> = s" by (auto simp: bit_eq_iff bit_simps)
  finally show ?thesis by (simp add: SetFlag_def)
qed

lemma FlagIsSet_single_bit:
  "FlagIsSet s (push_bit n 1) \<Longrightarrow> s AND push_bit n 1 = push_bit n 1"
proof -
  assume "FlagIsSet s (push_bit n 1)"
  then have "s AND push_bit n 1 \<noteq> 0" by (simp add: FlagIsSet_def)
  then obtain k where "bit (s AND push_bit n 1) k"
    by (auto simp: bit_eq_iff)
  then have n: "bit s n"
    by (auto simp: bit_simps)
  show ?thesis
  proof (rule bit_eqI)
    fix j assume "possible_bit TYPE('a word) j"
    with n show "bit (s AND push_bit n 1) j = bit (push_bit n 1 :: 'a word) j"
      by (auto simp: bit_simps)
  qed
qed

lemma SetFlag_False_absent: "\<not> FlagIsSet s f \<Longrightarrow> SetFlag s f False = s"
proof -
  assume "\<not> FlagIsSet s f"
  then have z: "s AND f = 0" by (simp add: FlagIsSet_def)
  have "s AND NOT f = s"
  proof (rule bit_eqI)
    fix k assume "possible_bit TYPE('a word) k"
    from z have "\<not> bit (s AND f) k" by simp
    then show "bit (s AND NOT f) k = bit s k"
      by (auto simp: bit_simps dest: bit_imp_le_length)
  qed
  then show ?thesis by (simp add: SetFlag_def)
qed

text \<open>
  Claim C5. Flag mutation is idempotent: for every flag set \<open>s\<close>, mask \<open>f\<close> and value
  \<open>v\<close>, \<open>SetFlag\<close> twice with the same flag and value equals \<open>SetFlag\<close> once. Setting a
  flag that is already set changes nothing: when \<open>s\<close> already holds every bit of the
  mask \<open>f\<close>, and in particular when \<open>f\<close> is one bit \<open>1 << n\<close> and \<open>FlagIsSet(s, f)\<close>
  holds, \<open>SetFlag(s, f, true)\<close> is \<open>s\<close>; and clearing a flag of which no bit is set
  changes nothing. \<open>SetFlag\<close> has a result for every input: it has no error outcome.
\<close>

theorem SetFlag_idempotent:
  "SetFlag (SetFlag s f v) f v = SetFlag s f v
   \<and> (s AND f = f \<longrightarrow> SetFlag s f True = s)
   \<and> (FlagIsSet s (push_bit n 1) \<longrightarrow> SetFlag s (push_bit n 1) True = s)
   \<and> (\<not> FlagIsSet s f \<longrightarrow> SetFlag s f False = s)"
  using SetFlag_twice SetFlag_True_contained FlagIsSet_single_bit SetFlag_False_absent
  by blast

theorem SetFlag_idempotent_witness:
  "(5 :: 32 word) AND 4 = 4 \<and> FlagIsSet (5 :: 32 word) (push_bit 2 1)
   \<and> \<not> FlagIsSet (5 :: 32 word) 2
   \<and> SetFlag (SetFlag (5 :: 32 word) 4 True) 4 True = SetFlag 5 4 True
   \<and> SetFlag (5 :: 32 word) 4 True = 5
   \<and> SetFlag (5 :: 32 word) (push_bit 2 1) True = 5
   \<and> SetFlag (5 :: 32 word) 2 False = 5"
proof -
  have h: "(5 :: 32 word) AND 4 = 4" "FlagIsSet (5 :: 32 word) (push_bit 2 1)"
    "\<not> FlagIsSet (5 :: 32 word) 2"
    by (simp_all add: FlagIsSet_def)
  from h SetFlag_idempotent [of "5 :: 32 word" 4 True 2]
    SetFlag_idempotent [of "5 :: 32 word" 2 False 2]
  show ?thesis by blast
qed

lemma SetFlag_AND_disjoint: "f AND g = 0 \<Longrightarrow> SetFlag s f v AND g = s AND g"
proof -
  assume z: "f AND g = 0"
  show ?thesis
  proof (rule bit_eqI)
    fix k assume "possible_bit TYPE('a word) k"
    from z have "\<not> bit (f AND g) k" by simp
    then show "bit (SetFlag s f v AND g) k = bit (s AND g) k"
      by (cases v) (auto simp: SetFlag_def bit_simps dest: bit_imp_le_length)
  qed
qed

text \<open>
  Claim C9. \<open>SetFlag\<close> touches only the bits of its mask: for every flag set \<open>s\<close>, masks
  \<open>f\<close> and \<open>g\<close> with \<open>f AND g = 0\<close>, and value \<open>v\<close>, \<open>FlagIsSet(s, g)\<close> is the same after
  \<open>SetFlag(s, f, v)\<close> as before, and so is every bit of \<open>s\<close> under \<open>g\<close>.
\<close>

theorem SetFlag_frame:
  "f AND g = 0 \<Longrightarrow>
     FlagIsSet (SetFlag s f v) g = FlagIsSet s g \<and> SetFlag s f v AND g = s AND g"
  by (simp add: FlagIsSet_def SetFlag_AND_disjoint)

theorem SetFlag_frame_witness:
  "(2 :: 32 word) AND 4 = 0
   \<and> FlagIsSet (SetFlag (5 :: 32 word) 2 True) 4 = FlagIsSet (5 :: 32 word) 4
   \<and> SetFlag (5 :: 32 word) 2 True AND 4 = 5 AND 4
   \<and> SetFlag (5 :: 32 word) 2 True = 7"
proof -
  have h: "(2 :: 32 word) AND 4 = 0" by simp
  from SetFlag_frame [OF h, of 5 True] h show ?thesis
    by (simp add: SetFlag_def)
qed

subsection \<open>The message handler\<close>

text \<open>
  Claim C6. \<open>AddMessage\<close> is a pure append: for every handler state and every
  severity, section, line and text, \<open>GetMessages\<close> afterwards is the sequence from
  before with the one entry \<open>{severity, section, line, text}\<close> at its end. The earlier
  entries are all there, unchanged and in the same order; the only other member
  function that changes the state, \<open>Clear\<close>, removes every entry at once.
\<close>

theorem AddMessage_pure_append:
  "GetMessages (AddMessage h sev sec line msg)
     = GetMessages h @ [\<lparr>Severity = sev, Section = sec, Lineno = line, Message = msg\<rparr>]
   \<and> length (GetMessages (AddMessage h sev sec line msg)) = Suc (length (GetMessages h))
   \<and> take (length (GetMessages h)) (GetMessages (AddMessage h sev sec line msg)) = GetMessages h
   \<and> drop (length (GetMessages h)) (GetMessages (AddMessage h sev sec line msg))
       = [\<lparr>Severity = sev, Section = sec, Lineno = line, Message = msg\<rparr>]
   \<and> GetMessages (Clear h) = []"
  by (simp add: GetMessages_def AddMessage_def Entry_ctor_def Clear_def)

lemma first_error_None:
  "(\<forall>e \<in> set es. Severity e \<noteq> kSV_Error) \<Longrightarrow> first_error es = None"
  by (induction es) simp_all

lemma first_error_append:
  "(\<forall>x \<in> set pre. Severity x \<noteq> kSV_Error) \<Longrightarrow> first_error (pre @ es) = first_error es"
  by (induction pre) simp_all

text \<open>
  Claim C7. \<open>GetError\<close> returns the first entry, in emission order, whose severity is
  error: when the messages are \<open>pre @ e # post\<close>, no entry of \<open>pre\<close> is an error and \<open>e\<close>
  is one, the result is \<open>e\<close>. When no entry is an error, and so when every entry is
  an info or a warning, the result is the sentinel.
\<close>

theorem GetError_first_error:
  "((\<forall>x \<in> set (GetMessages h). Severity x \<noteq> kSV_Error) \<longrightarrow> GetError noError h = noError)
   \<and> ((\<forall>x \<in> set (GetMessages h). Severity x = kSV_Info \<or> Severity x = kSV_Warning)
        \<longrightarrow> GetError noError h = noError)
   \<and> (GetMessages h = pre @ e # post \<and> (\<forall>x \<in> set pre. Severity x \<noteq> kSV_Error)
        \<and> Severity e = kSV_Error \<longrightarrow> GetError noError h = e)"
proof -
  have none: "GetError noError h = noError"
    if "\<forall>x \<in> set (GetMessages h). Severity x \<noteq> kSV_Error"
    using that by (simp add: GetError_def GetMessages_def first_error_None)
  have benign: "GetError noError h = noError"
    if "\<forall>x \<in> set (GetMessages h). Severity x = kSV_Info \<or> Severity x = kSV_Warning"
  proof (rule none)
    from that show "\<forall>x \<in> set (GetMessages h). Severity x \<noteq> kSV_Error" by auto
  qed
  have first: "GetError noError h = e"
    if "GetMessages h = pre @ e # post" "\<forall>x \<in> set pre. Severity x \<noteq> kSV_Error"
      "Severity e = kSV_Error"
    using that by (simp add: GetError_def GetMessages_def first_error_append)
  from none benign first show ?thesis by blast
qed

theorem GetError_first_error_witness:
  "map Severity (GetMessages
        (AddMessage (AddMessage \<lparr>entries = []\<rparr> kSV_Info ''room1'' 3 ''note'') kSV_Warning ''room1'' 7 ''unused''))
       = [kSV_Info, kSV_Warning]
   \<and> GetError \<lparr>Severity = kSV_None, Section = '''', Lineno = 0, Message = ''''\<rparr>
        (AddMessage (AddMessage \<lparr>entries = []\<rparr> kSV_Info ''room1'' 3 ''note'') kSV_Warning ''room1'' 7 ''unused'')
       = \<lparr>Severity = kSV_None, Section = '''', Lineno = 0, Message = ''''\<rparr>
   \<and> GetMessages (AddMessage (AddMessage (AddMessage \<lparr>entries = []\<rparr>
          kSV_Warning ''room1'' 7 ''unused'') kSV_Error ''room1'' 9 ''first'') kSV_Error ''room1'' 12 ''second'')
       = [\<lparr>Severity = kSV_Warning, Section = ''room1'', Lineno = 7, Message = ''unused''\<rparr>]
         @ \<lparr>Severity = kSV_Error, Section = ''room1'', Lineno = 9, Message = ''first''\<rparr>
         # [\<lparr>Severity = kSV_Error, Section = ''room1'', Lineno = 12, Message = ''second''\<rparr>]
   \<and> GetError \<lparr>Severity = kSV_None, Section = '''', Lineno = 0, Message = ''''\<rparr>
        (AddMessage (AddMessage (AddMessage \<lparr>entries = []\<rparr>
          kSV_Warning ''room1'' 7 ''unused'') kSV_Error ''room1'' 9 ''first'') kSV_Error ''room1'' 12 ''second'')
       = \<lparr>Severity = kSV_Error, Section = ''room1'', Lineno = 9, Message = ''first''\<rparr>"
proof -
  let ?quiet = "AddMessage (AddMessage \<lparr>entries = []\<rparr> kSV_Info ''room1'' 3 ''note'') kSV_Warning ''room1'' 7 ''unused''"
  let ?failed = "AddMessage (AddMessage (AddMessage \<lparr>entries = []\<rparr>
          kSV_Warning ''room1'' 7 ''unused'') kSV_Error ''room1'' 9 ''first'') kSV_Error ''room1'' 12 ''second''"
  let ?w = "\<lparr>Severity = kSV_Warning, Section = ''room1'', Lineno = 7, Message = ''unused''\<rparr>"
  let ?e = "\<lparr>Severity = kSV_Error, Section = ''room1'', Lineno = 9, Message = ''first''\<rparr>"
  let ?e2 = "\<lparr>Severity = kSV_Error, Section = ''room1'', Lineno = 12, Message = ''second''\<rparr>"
  let ?none = "\<lparr>Severity = kSV_None, Section = '''', Lineno = 0, Message = ''''\<rparr>"
  have quiet: "\<forall>x \<in> set (GetMessages ?quiet). Severity x = kSV_Info \<or> Severity x = kSV_Warning"
    by (simp add: GetMessages_def AddMessage_def Entry_ctor_def)
  have sevs: "map Severity (GetMessages ?quiet) = [kSV_Info, kSV_Warning]"
    by (simp add: GetMessages_def AddMessage_def Entry_ctor_def)
  have failed: "GetMessages ?failed = [?w] @ ?e # [?e2]"
    by (simp add: GetMessages_def AddMessage_def Entry_ctor_def)
  have pre: "\<forall>x \<in> set [?w]. Severity x \<noteq> kSV_Error" and sev: "Severity ?e = kSV_Error"
    by simp_all
  from GetError_first_error [where h = ?quiet and noError = ?none] quiet
  have a: "GetError ?none ?quiet = ?none" by blast
  from GetError_first_error [where h = ?failed and pre = "[?w]" and e = ?e and post = "[?e2]" and noError = ?none]
    failed pre sev
  have b: "GetError ?none ?failed = ?e" by blast
  from sevs a failed b show ?thesis by blast
qed

end
